theory Spec2Isabelle
  imports Main "HOL-Library.Sublist"
begin

section \<open>Python values\<close>

text \<open>
  The attributes of an upstream model object are untyped. The values that matter to
  \<^verbatim>\<open>hf_search_tool.py\<close> are \<^verbatim>\<open>None\<close>, booleans, integers and strings. Strings are
  byte strings here, so case folding is the ASCII one.
\<close>

datatype pyval = PNone | PBool bool | PInt int | PStr string

datatype error = TypeError | UpstreamError string

text \<open>Truth value of an object, as \<^verbatim>\<open>if x:\<close>, \<^verbatim>\<open>not x\<close> and \<^verbatim>\<open>x or y\<close> test it.\<close>

fun truthy :: "pyval \<Rightarrow> bool" where
  "truthy PNone = False"
| "truthy (PBool b) = b"
| "truthy (PInt n) = (n \<noteq> 0)"
| "truthy (PStr s) = (s \<noteq> [])"

definition py_or :: "pyval \<Rightarrow> pyval \<Rightarrow> pyval" where
  "py_or a b = (if truthy a then a else b)"

text \<open>\<^verbatim>\<open>getattr(obj, name, default)\<close>: an absent attribute is \<open>None\<close> of the option type.\<close>

definition getattr :: "pyval option \<Rightarrow> pyval \<Rightarrow> pyval" where
  "getattr a d = (case a of None \<Rightarrow> d | Some v \<Rightarrow> v)"

text \<open>
  \<^verbatim>\<open>value >= n\<close> for an integer \<open>n\<close>: booleans count as 0 and 1, and comparing
  \<^verbatim>\<open>None\<close> or a string with an integer raises \<^verbatim>\<open>TypeError\<close>.
\<close>

fun py_ge :: "pyval \<Rightarrow> int \<Rightarrow> error + bool" where
  "py_ge (PInt d) n = Inr (d \<ge> n)"
| "py_ge (PBool b) n = Inr ((if b then 1 else 0) \<ge> n)"
| "py_ge PNone n = Inl TypeError"
| "py_ge (PStr s) n = Inl TypeError"

text \<open>Truth value of an optional string argument (\<^verbatim>\<open>if query:\<close>).\<close>

fun is_set :: "string option \<Rightarrow> bool" where
  "is_set None = False"
| "is_set (Some s) = (s \<noteq> [])"

definition lower_char :: "char \<Rightarrow> char" where
  "lower_char c =
     (case map_of (zip ''ABCDEFGHIJKLMNOPQRSTUVWXYZ'' ''abcdefghijklmnopqrstuvwxyz'') c of
        None \<Rightarrow> c | Some d \<Rightarrow> d)"

definition lower :: "string \<Rightarrow> string" where
  "lower s = map lower_char s"

text \<open>\<^verbatim>\<open>a in b\<close> on strings: \<open>a\<close> occurs in \<open>b\<close> as a contiguous piece.\<close>

definition py_in :: "string \<Rightarrow> string \<Rightarrow> bool" where
  "py_in a b = sublist a b"

section \<open>Upstream records and normalized records\<close>

text \<open>
  An object yielded by \<^verbatim>\<open>list_models\<close>: the four attributes the tool reads
  (\<open>None\<close> when the object has no such attribute) and its \<^verbatim>\<open>str()\<close>.
\<close>

record hf_model =
  attr_id :: "pyval option"
  attr_pipeline_tag :: "pyval option"
  attr_downloads :: "pyval option"
  attr_likes :: "pyval option"
  str_of_model :: string

text \<open>The dictionary built by \<^verbatim>\<open>_format_model\<close>, one field per key.\<close>

record model_record =
  model_name :: string
  task :: pyval
  organization_url :: string
  full_model_id :: string
  organization :: string
  downloads :: pyval
  likes :: pyval

text \<open>\<^verbatim>\<open>s.split('/', 1)\<close> on a string that contains a slash.\<close>

definition split_slash :: "string \<Rightarrow> string \<times> string" where
  "split_slash s =
     (takeWhile (\<lambda>c. c \<noteq> CHR ''/'') s, tl (dropWhile (\<lambda>c. c \<noteq> CHR ''/'') s))"

text \<open>
  \<^verbatim>\<open>_format_model\<close>. A falsy identifier returns \<^verbatim>\<open>None\<close>; an identifier that is not
  a string makes \<^verbatim>\<open>'/' in model_id\<close> raise \<^verbatim>\<open>TypeError\<close>, which the function's own
  \<^verbatim>\<open>except\<close> turns into \<^verbatim>\<open>None\<close> as well.
\<close>

definition format_model :: "hf_model \<Rightarrow> model_record option" where
  "format_model model =
     (let model_id = getattr (attr_id model) (PStr (str_of_model model)) in
      if \<not> truthy model_id then None
      else case model_id of
        PStr s \<Rightarrow>
          (let (org, name, url) =
                 (if CHR ''/'' \<in> set s
                  then (let (org, name) = split_slash s
                        in (org, name, ''huggingface.co/'' @ org))
                  else (''independent'', s, ''huggingface.co''));
               task = py_or (getattr (attr_pipeline_tag model) PNone) (PStr ''other'');
               downloads = py_or (getattr (attr_downloads model) (PInt 0)) (PInt 0);
               likes = py_or (getattr (attr_likes model) (PInt 0)) (PInt 0)
           in Some \<lparr> model_name = name, task = task, organization_url = url,
                     full_model_id = s, organization = org,
                     downloads = downloads, likes = likes \<rparr>)
      | _ \<Rightarrow> None)"

section \<open>The search\<close>

text \<open>
  The keyword arguments of \<^verbatim>\<open>search\<close>, with the defaults of its signature.
\<close>

record search_args =
  arg_query :: "string option"
  arg_task :: "string option"
  arg_organization :: "string option"
  arg_library :: "string option"
  arg_sort :: string
  arg_direction :: int
  arg_limit :: int
  arg_min_downloads :: int
  arg_created_after :: "string option"

definition default_args :: search_args where
  "default_args =
     \<lparr> arg_query = None, arg_task = None, arg_organization = None, arg_library = None,
       arg_sort = ''downloads'', arg_direction = - 1, arg_limit = 50,
       arg_min_downloads = 0, arg_created_after = None \<rparr>"

text \<open>The dictionary \<^verbatim>\<open>search_params\<close> passed to the listing call.\<close>

definition add_param :: "string \<Rightarrow> string option \<Rightarrow> (string \<rightharpoonup> pyval) \<Rightarrow> (string \<rightharpoonup> pyval)" where
  "add_param k v m = (if is_set v then m(k \<mapsto> PStr (the v)) else m)"

definition build_params :: "search_args \<Rightarrow> (string \<rightharpoonup> pyval)" where
  "build_params a =
     add_param ''created_at'' (arg_created_after a)
      (add_param ''search'' (arg_query a)
        (add_param ''library'' (arg_library a)
          (add_param ''author'' (arg_organization a)
            (add_param ''task'' (arg_task a)
              [''sort'' \<mapsto> PStr (arg_sort a),
               ''direction'' \<mapsto> PInt (arg_direction a),
               ''limit'' \<mapsto> PInt (arg_limit a),
               ''full'' \<mapsto> PBool True]))))"

text \<open>
  What iterating over the result of \<^verbatim>\<open>list_models\<close> does: it yields a record and goes
  on, stops, or raises. The listing is finite (the call carries a limit).
\<close>

datatype 'a gen = Done | Raise error | Yield 'a "'a gen"

fun gen_items :: "'a gen \<Rightarrow> 'a list" where
  "gen_items Done = []"
| "gen_items (Raise e) = []"
| "gen_items (Yield x g) = x # gen_items g"

fun gen_raises :: "'a gen \<Rightarrow> bool" where
  "gen_raises Done = False"
| "gen_raises (Raise e) = True"
| "gen_raises (Yield x g) = gen_raises g"

type_synonym listing = "(string \<rightharpoonup> pyval) \<Rightarrow> error + hf_model gen"

text \<open>
  One pass of the body of \<^verbatim>\<open>for model in models\<close>, from the results so far to the
  results after it. A \<^verbatim>\<open>TypeError\<close> of the download comparison is caught by the inner
  \<^verbatim>\<open>except\<close>, before anything is appended. The query test comes after the append, and
  its \<^verbatim>\<open>continue\<close> is the last statement of the body.
\<close>

definition loop_body :: "string option \<Rightarrow> int \<Rightarrow> hf_model \<Rightarrow> model_record list \<Rightarrow> model_record list" where
  "loop_body query min_downloads model results =
     (case format_model model of
        None \<Rightarrow> results
      | Some model_data \<Rightarrow>
          (case py_ge (downloads model_data) min_downloads of
             Inl e \<Rightarrow> results
           | Inr ok \<Rightarrow>
               (let results' = (if ok then results @ [model_data] else results) in
                if is_set query \<and>
                   \<not> py_in (lower (the query)) (lower (model_name model_data))
                then (if \<not> py_in (lower (the query)) (lower (full_model_id model_data))
                      then results'
                      else results')
                else results')))"

fun search_loop :: "string option \<Rightarrow> int \<Rightarrow> hf_model gen \<Rightarrow> model_record list \<Rightarrow> error + model_record list" where
  "search_loop query min_downloads Done results = Inr results"
| "search_loop query min_downloads (Raise e) results = Inl e"
| "search_loop query min_downloads (Yield model g) results =
     search_loop query min_downloads g (loop_body query min_downloads model results)"

text \<open>The body of the outer \<^verbatim>\<open>try\<close>, and \<^verbatim>\<open>search\<close> with its \<^verbatim>\<open>except\<close>.\<close>

definition search_try :: "listing \<Rightarrow> search_args \<Rightarrow> error + model_record list" where
  "search_try list_models a =
     (case list_models (build_params a) of
        Inl e \<Rightarrow> Inl e
      | Inr models \<Rightarrow> search_loop (arg_query a) (arg_min_downloads a) models [])"

definition search :: "listing \<Rightarrow> search_args \<Rightarrow> model_record list" where
  "search list_models a =
     (case search_try list_models a of Inl e \<Rightarrow> [] | Inr results \<Rightarrow> results)"

section \<open>Convenience wrappers\<close>

text \<open>
  Each wrapper calls \<^verbatim>\<open>search\<close> with some keyword arguments; the arguments it does
  not name keep the defaults of the signature.
\<close>

definition search_by_name :: "listing \<Rightarrow> string \<Rightarrow> int \<Rightarrow> model_record list" where
  "search_by_name list_models name limit =
     search list_models (default_args\<lparr>arg_query := Some name, arg_limit := limit\<rparr>)"

definition search_by_task :: "listing \<Rightarrow> string \<Rightarrow> int \<Rightarrow> bool \<Rightarrow> model_record list" where
  "search_by_task list_models task' limit popular_only =
     (let min_downloads = (if popular_only then 1000 else 0) in
      search list_models
        (default_args\<lparr>arg_task := Some task', arg_limit := limit,
                       arg_min_downloads := min_downloads\<rparr>))"

definition search_by_org :: "listing \<Rightarrow> string \<Rightarrow> int \<Rightarrow> model_record list" where
  "search_by_org list_models org limit =
     search list_models (default_args\<lparr>arg_organization := Some org, arg_limit := limit\<rparr>)"

definition get_popular :: "listing \<Rightarrow> string option \<Rightarrow> int \<Rightarrow> model_record list" where
  "get_popular list_models task' limit =
     search list_models
       (default_args\<lparr>arg_task := task', arg_limit := limit, arg_sort := ''downloads'',
                      arg_min_downloads := 10000\<rparr>)"

definition get_recent :: "listing \<Rightarrow> string option \<Rightarrow> int \<Rightarrow> model_record list" where
  "get_recent list_models task' limit =
     search list_models
       (default_args\<lparr>arg_task := task', arg_limit := limit, arg_sort := ''created'',
                      arg_created_after := Some ''2024-01-01''\<rparr>)"

section \<open>CSV export\<close>

text \<open>
  The part of the world \<^verbatim>\<open>export_csv\<close> acts on: the contents of the files, the
  directories that exist, and the lines printed so far. Failures of the operating
  system (a path that cannot be written) are outside this model.
\<close>

record world =
  files :: "string \<rightharpoonup> string"
  dirs :: "string set"
  stdout :: "string list"

definition print :: "string \<Rightarrow> world \<Rightarrow> world" where
  "print line w = w\<lparr>stdout := stdout w @ [line]\<rparr>"

text \<open>Decimal notation, as \<^verbatim>\<open>str\<close> and an f-string give it for an integer.\<close>

function str_nat :: "nat \<Rightarrow> string" where
  "str_nat n = (if n < 10 then [''0123456789'' ! n]
                else str_nat (n div 10) @ [''0123456789'' ! (n mod 10)])"
  by pat_completeness auto
termination
  by (relation "measure id") auto

definition str_int :: "int \<Rightarrow> string" where
  "str_int i = (if i < 0 then ''-'' @ str_nat (nat (- i)) else str_nat (nat i))"

text \<open>
  The text \<^verbatim>\<open>csv.writer\<close> writes for one field with the default dialect: \<^verbatim>\<open>None\<close> is
  the empty field, anything else its \<^verbatim>\<open>str()\<close>; a field holding a comma, a double quote,
  a carriage return or a line feed is put in double quotes, with its double quotes doubled.
\<close>

fun csv_str :: "pyval \<Rightarrow> string" where
  "csv_str PNone = []"
| "csv_str (PBool b) = (if b then ''True'' else ''False'')"
| "csv_str (PInt i) = str_int i"
| "csv_str (PStr s) = s"

definition csv_special :: "char \<Rightarrow> bool" where
  "csv_special c = (c = CHR '','' \<or> c = CHR 0x22 \<or> c = CHR 0x0D \<or> c = CHR 0x0A)"

definition csv_field :: "pyval \<Rightarrow> string" where
  "csv_field v =
     (let s = csv_str v in
      if list_ex csv_special s
      then [CHR 0x22] @ concat (map (\<lambda>c. if c = CHR 0x22 then [c, c] else [c]) s) @ [CHR 0x22]
      else s)"

fun join_comma :: "string list \<Rightarrow> string" where
  "join_comma [] = []"
| "join_comma [x] = x"
| "join_comma (x # y # ys) = x @ '','' @ join_comma (y # ys)"

text \<open>
  \<^verbatim>\<open>writer.writerow(row)\<close> on the text written to the file so far. The rows written
  here have three fields each.
\<close>

definition writerow :: "pyval list \<Rightarrow> string \<Rightarrow> string" where
  "writerow row f = f @ join_comma (map csv_field row) @ [CHR 0x0D, CHR 0x0A]"

fun write_models :: "model_record list \<Rightarrow> string \<Rightarrow> string" where
  "write_models [] f = f"
| "write_models (model # rest) f =
     write_models rest
       (writerow [PStr (model_name model), task model, PStr (organization_url model)] f)"

text \<open>
  \<^verbatim>\<open>Path(filename).parent\<close> and \<^verbatim>\<open>mkdir(parents=True, exist_ok=True)\<close>, on paths
  written with single slashes.
\<close>

definition path_parent :: "string \<Rightarrow> string" where
  "path_parent p =
     (if CHR ''/'' \<notin> set p then ''.''
      else (let d = rev (tl (dropWhile (\<lambda>c. c \<noteq> CHR ''/'') (rev p)))
            in if d = [] then ''/'' else d))"

definition mkdir_parents :: "string \<Rightarrow> string set \<Rightarrow> string set" where
  "mkdir_parents p ds =
     ds \<union> set (filter (\<lambda>q. q \<noteq> [] \<and> (q = p \<or> prefix (q @ ''/'') p)) (prefixes p))"

definition no_results_message :: string where
  "no_results_message = [CHR 0xE2, CHR 0x9D, CHR 0x8C] @ '' No results to export''"

definition exported_message :: "nat \<Rightarrow> string \<Rightarrow> string" where
  "exported_message n filename =
     [CHR 0xF0, CHR 0x9F, CHR 0x92, CHR 0xBE] @ '' Exported '' @ str_nat n
       @ '' models to: '' @ filename"

text \<open>\<^verbatim>\<open>export_csv\<close>. Opening the file with mode \<^verbatim>\<open>'w'\<close> starts from empty contents.\<close>

definition export_csv :: "model_record list \<Rightarrow> string \<Rightarrow> world \<Rightarrow> world" where
  "export_csv results filename w =
     (if results = [] then print no_results_message w
      else
        (let w1 = w\<lparr>dirs := mkdir_parents (path_parent filename) (dirs w)\<rparr>;
             f = writerow [PStr ''model_name'', PStr ''task'', PStr ''organization_url''] [];
             f' = write_models results f;
             w2 = w1\<lparr>files := (files w1)(filename \<mapsto> f')\<rparr>
         in print (exported_message (length results) filename) w2))"

section \<open>Observations on the upstream listing\<close>


fun upstream_items :: "error + hf_model gen \<Rightarrow> hf_model list" where
  "upstream_items (Inl e) = []"
| "upstream_items (Inr g) = gen_items g"

text \<open>Two upstream records used as concrete inputs below.\<close>

definition sample_gpt2 :: hf_model where
  "sample_gpt2 =
     \<lparr> attr_id = Some (PStr ''openai/gpt-2''), attr_pipeline_tag = Some (PStr ''text-generation''),
       attr_downloads = Some (PInt 5000), attr_likes = Some (PInt 12),
       str_of_model = ''ModelInfo'' \<rparr>"

definition sample_bert :: hf_model where
  "sample_bert =
     \<lparr> attr_id = Some (PStr ''bert-base''), attr_pipeline_tag = None,
       attr_downloads = Some PNone, attr_likes = None, str_of_model = ''ModelInfo'' \<rparr>"

section \<open>Properties of the normalization\<close>

lemma split_slash_join:
  assumes "CHR ''/'' \<in> set s"
  shows "s = fst (split_slash s) @ ''/'' @ snd (split_slash s)"
    and "CHR ''/'' \<notin> set (fst (split_slash s))"
proof -
  let ?P = "\<lambda>c. c \<noteq> CHR ''/''"
  from assms have ne: "dropWhile ?P s \<noteq> []" by auto
  then have "hd (dropWhile ?P s) = CHR ''/''"
    using hd_dropWhile [of ?P s] by simp
  with ne have "dropWhile ?P s = CHR ''/'' # tl (dropWhile ?P s)"
    by (cases "dropWhile ?P s") simp_all
  then have "takeWhile ?P s @ CHR ''/'' # tl (dropWhile ?P s) = s"
    using takeWhile_dropWhile_id [of ?P s] by simp
  then show "s = fst (split_slash s) @ ''/'' @ snd (split_slash s)"
    by (simp add: split_slash_def)
  show "CHR ''/'' \<notin> set (fst (split_slash s))"
    by (auto simp: split_slash_def dest: set_takeWhileD)
qed

lemma format_model_SomeD:
  assumes "format_model m = Some r"
  shows "\<exists>s. getattr (attr_id m) (PStr (str_of_model m)) = PStr s \<and> s \<noteq> [] \<and>
          full_model_id r = s \<and>
          task r = py_or (getattr (attr_pipeline_tag m) PNone) (PStr ''other'') \<and>
          downloads r = py_or (getattr (attr_downloads m) (PInt 0)) (PInt 0) \<and>
          likes r = py_or (getattr (attr_likes m) (PInt 0)) (PInt 0) \<and>
          (if CHR ''/'' \<in> set s
           then organization r = fst (split_slash s) \<and> model_name r = snd (split_slash s) \<and>
                organization_url r = ''huggingface.co/'' @ fst (split_slash s)
           else organization r = ''independent'' \<and> model_name r = s \<and>
                organization_url r = ''huggingface.co'')"
  using assms
  by (auto simp: format_model_def Let_def split: if_splits pyval.splits prod.splits)

lemma format_sample_gpt2:
  "format_model sample_gpt2 =
     Some \<lparr> model_name = ''gpt-2'', task = PStr ''text-generation'',
            organization_url = ''huggingface.co/openai'', full_model_id = ''openai/gpt-2'',
            organization = ''openai'', downloads = PInt 5000, likes = PInt 12 \<rparr>"
  by (simp add: format_model_def sample_gpt2_def getattr_def py_or_def split_slash_def)

lemma format_sample_bert:
  "format_model sample_bert =
     Some \<lparr> model_name = ''bert-base'', task = PStr ''other'',
            organization_url = ''huggingface.co'', full_model_id = ''bert-base'',
            organization = ''independent'', downloads = PInt 0, likes = PInt 0 \<rparr>"
  by (simp add: format_model_def sample_bert_def getattr_def py_or_def)

text \<open>
  C4. \<^verbatim>\<open>_format_model\<close> splits an identifier at its first slash. For every record
  whose identifier is a non-empty string: if the identifier contains a slash, the
  identifier is the organization, a slash and the model name, the organization holds no
  slash, and the organization URL is \<^verbatim>\<open>"huggingface.co/"\<close> followed by the organization;
  if it contains no slash, the organization is \<^verbatim>\<open>"independent"\<close>, the model name is the
  whole identifier and the organization URL is \<^verbatim>\<open>"huggingface.co"\<close>. In particular,
  whatever the other attributes are, \<^verbatim>\<open>"openai/gpt-2"\<close> gives organization \<^verbatim>\<open>"openai"\<close>,
  model name \<^verbatim>\<open>"gpt-2"\<close> and URL \<^verbatim>\<open>"huggingface.co/openai"\<close>, and \<^verbatim>\<open>"gpt-2"\<close> gives
  organization \<^verbatim>\<open>"independent"\<close>, model name \<^verbatim>\<open>"gpt-2"\<close> and URL \<^verbatim>\<open>"huggingface.co"\<close>.
\<close>

theorem format_model_split:
  "(getattr (attr_id m) (PStr (str_of_model m)) = PStr s \<and> s \<noteq> [] \<longrightarrow>
      (\<exists>r. format_model m = Some r \<and> full_model_id r = s \<and>
         (if CHR ''/'' \<in> set s
          then s = organization r @ ''/'' @ model_name r \<and>
               CHR ''/'' \<notin> set (organization r) \<and>
               organization_url r = ''huggingface.co/'' @ organization r
          else organization r = ''independent'' \<and> model_name r = s \<and>
               organization_url r = ''huggingface.co''))) \<and>
   map_option (\<lambda>r. (organization r, model_name r, organization_url r))
     (format_model (m\<lparr>attr_id := Some (PStr ''openai/gpt-2'')\<rparr>))
     = Some (''openai'', ''gpt-2'', ''huggingface.co/openai'') \<and>
   map_option (\<lambda>r. (organization r, model_name r, organization_url r, full_model_id r))
     (format_model (m\<lparr>attr_id := Some (PStr ''gpt-2'')\<rparr>))
     = Some (''independent'', ''gpt-2'', ''huggingface.co'', ''gpt-2'')"
proof (intro conjI impI)
  assume a: "getattr (attr_id m) (PStr (str_of_model m)) = PStr s \<and> s \<noteq> []"
  show "\<exists>r. format_model m = Some r \<and> full_model_id r = s \<and>
         (if CHR ''/'' \<in> set s
          then s = organization r @ ''/'' @ model_name r \<and>
               CHR ''/'' \<notin> set (organization r) \<and>
               organization_url r = ''huggingface.co/'' @ organization r
          else organization r = ''independent'' \<and> model_name r = s \<and>
               organization_url r = ''huggingface.co'')"
  proof (cases "CHR ''/'' \<in> set s")
    case True
    from a True have "\<exists>r. format_model m = Some r"
      by (cases "split_slash s") (simp add: format_model_def Let_def)
    then obtain r where r: "format_model m = Some r" ..
    from format_model_SomeD [OF r] a True
    have f: "full_model_id r = s" "organization r = fst (split_slash s)"
      "model_name r = snd (split_slash s)"
      "organization_url r = ''huggingface.co/'' @ fst (split_slash s)"
      by auto
    from split_slash_join [OF True] f r True show ?thesis by simp
  next
    case False
    from a False have "\<exists>r. format_model m = Some r"
      by (simp add: format_model_def Let_def)
    then obtain r where r: "format_model m = Some r" ..
    from format_model_SomeD [OF r] a False r show ?thesis by auto
  qed
next
  show "map_option (\<lambda>r. (organization r, model_name r, organization_url r))
     (format_model (m\<lparr>attr_id := Some (PStr ''openai/gpt-2'')\<rparr>))
     = Some (''openai'', ''gpt-2'', ''huggingface.co/openai'')"
    by (simp add: format_model_def getattr_def split_slash_def)
next
  show "map_option (\<lambda>r. (organization r, model_name r, organization_url r, full_model_id r))
     (format_model (m\<lparr>attr_id := Some (PStr ''gpt-2'')\<rparr>))
     = Some (''independent'', ''gpt-2'', ''huggingface.co'', ''gpt-2'')"
    by (simp add: format_model_def getattr_def)
qed

theorem format_model_split_witness:
  "getattr (attr_id (sample_gpt2\<lparr>attr_id := Some (PStr ''org/sub/name'')\<rparr>))
     (PStr (str_of_model (sample_gpt2\<lparr>attr_id := Some (PStr ''org/sub/name'')\<rparr>)))
     = PStr ''org/sub/name'' \<and>
   ''org/sub/name'' \<noteq> [] \<and>
   map_option (\<lambda>r. (organization r, model_name r, organization_url r, full_model_id r))
     (format_model (sample_gpt2\<lparr>attr_id := Some (PStr ''org/sub/name'')\<rparr>))
     = Some (''org'', ''sub/name'', ''huggingface.co/org'', ''org/sub/name'')"
  using format_model_split
    [of "sample_gpt2\<lparr>attr_id := Some (PStr ''org/sub/name'')\<rparr>" "''org/sub/name''"]
  by (simp add: format_model_def getattr_def split_slash_def sample_gpt2_def py_or_def)

text \<open>
  C6. In a record produced by \<^verbatim>\<open>_format_model\<close>, the task is \<^verbatim>\<open>"other"\<close> when the
  upstream task tag is absent or falsy, the download count is 0 when the upstream
  attribute is absent or \<^verbatim>\<open>None\<close>, and the like count is 0 when the upstream attribute
  is absent or \<^verbatim>\<open>None\<close>.
\<close>

theorem format_model_defaults:
  assumes "format_model m = Some r"
  shows "((case attr_pipeline_tag m of None \<Rightarrow> True | Some v \<Rightarrow> \<not> truthy v)
            \<longrightarrow> task r = PStr ''other'') \<and>
         (attr_downloads m = None \<or> attr_downloads m = Some PNone \<longrightarrow> downloads r = PInt 0) \<and>
         (attr_likes m = None \<or> attr_likes m = Some PNone \<longrightarrow> likes r = PInt 0)"
  using format_model_SomeD [OF assms]
  by (auto simp: getattr_def py_or_def split: option.splits)

theorem format_model_defaults_witness:
  "format_model sample_bert =
     Some \<lparr> model_name = ''bert-base'', task = PStr ''other'',
            organization_url = ''huggingface.co'', full_model_id = ''bert-base'',
            organization = ''independent'', downloads = PInt 0, likes = PInt 0 \<rparr> \<and>
   attr_pipeline_tag sample_bert = None \<and> attr_downloads sample_bert = Some PNone \<and>
   attr_likes sample_bert = None"
  using format_model_defaults [OF format_sample_bert] format_sample_bert
  by (simp add: sample_bert_def)

text \<open>
  C9, as the claim states it, fails: the identifier \<^verbatim>\<open>"independent/foo"\<close> is formatted
  with organization \<^verbatim>\<open>"independent"\<close>, yet the full identifier is not the model name and
  the organization URL is not \<^verbatim>\<open>"huggingface.co"\<close>.
\<close>

theorem format_model_round_trip_counterexample:
  "(case format_model \<lparr> attr_id = Some (PStr ''independent/foo''), attr_pipeline_tag = None,
                        attr_downloads = None, attr_likes = None, str_of_model = [] \<rparr> of
      None \<Rightarrow> False
    | Some r \<Rightarrow> organization r = ''independent'' \<and> full_model_id r \<noteq> model_name r \<and>
                organization_url r \<noteq> ''huggingface.co'')"
  by (simp add: format_model_def getattr_def split_slash_def py_or_def)

text \<open>
  C9, amended. In a record produced by \<^verbatim>\<open>_format_model\<close>: if the organization is not
  \<^verbatim>\<open>"independent"\<close>, or the full identifier contains a slash, then the full identifier
  is organization, slash, model name, and the organization URL is \<^verbatim>\<open>"huggingface.co/"\<close>
  followed by the organization; if the full identifier contains no slash, then the
  organization is \<^verbatim>\<open>"independent"\<close>, the full identifier is the model name and the
  organization URL is \<^verbatim>\<open>"huggingface.co"\<close>.
\<close>

theorem format_model_round_trip:
  assumes "format_model m = Some r"
  shows "(organization r \<noteq> ''independent'' \<or> CHR ''/'' \<in> set (full_model_id r)
            \<longrightarrow> full_model_id r = organization r @ ''/'' @ model_name r \<and>
                organization_url r = ''huggingface.co/'' @ organization r) \<and>
         (CHR ''/'' \<notin> set (full_model_id r)
            \<longrightarrow> organization r = ''independent'' \<and> full_model_id r = model_name r \<and>
                organization_url r = ''huggingface.co'')"
proof -
  from format_model_SomeD [OF assms] obtain s where
    s: "full_model_id r = s"
    and br: "if CHR ''/'' \<in> set s
           then organization r = fst (split_slash s) \<and> model_name r = snd (split_slash s) \<and>
                organization_url r = ''huggingface.co/'' @ fst (split_slash s)
           else organization r = ''independent'' \<and> model_name r = s \<and>
                organization_url r = ''huggingface.co''"
    by blast
  show ?thesis
  proof (cases "CHR ''/'' \<in> set s")
    case True
    with br split_slash_join(1) [OF True] s show ?thesis by simp
  next
    case False
    with br s show ?thesis by simp
  qed
qed

theorem format_model_round_trip_witness:
  "format_model sample_gpt2 =
     Some \<lparr> model_name = ''gpt-2'', task = PStr ''text-generation'',
            organization_url = ''huggingface.co/openai'', full_model_id = ''openai/gpt-2'',
            organization = ''openai'', downloads = PInt 5000, likes = PInt 12 \<rparr> \<and>
   ''openai/gpt-2'' = ''openai'' @ ''/'' @ ''gpt-2'' \<and>
   ''huggingface.co/openai'' = ''huggingface.co/'' @ ''openai''"
  using format_model_round_trip [OF format_sample_gpt2] format_sample_gpt2
  by simp

section \<open>Properties of the search\<close>

lemma loop_body_cases:
  "loop_body q md m acc = acc \<or>
   (\<exists>d. format_model m = Some d \<and> py_ge (downloads d) md = Inr True \<and>
        loop_body q md m acc = acc @ [d])"
  by (auto simp: loop_body_def Let_def split: option.splits sum.splits)

lemma search_loop_extends:
  "search_loop q md g acc = Inr rs \<Longrightarrow>
   \<exists>ys. rs = acc @ ys \<and> subseq ys (List.map_filter format_model (gen_items g)) \<and>
        (\<forall>r\<in>set ys. py_ge (downloads r) md = Inr True)"
proof (induction g arbitrary: acc)
  case Done
  then show ?case by (simp add: map_filter_simps)
next
  case (Raise e)
  then show ?case by simp
next
  case (Yield m g)
  from Yield.prems have run: "search_loop q md g (loop_body q md m acc) = Inr rs"
    by simp
  from Yield.IH [OF run] obtain ys where
    ys: "rs = loop_body q md m acc @ ys"
        "subseq ys (List.map_filter format_model (gen_items g))"
        "\<forall>r\<in>set ys. py_ge (downloads r) md = Inr True"
    by blast
  from loop_body_cases [of q md m acc] show ?case
  proof
    assume same: "loop_body q md m acc = acc"
    have "subseq ys (List.map_filter format_model (gen_items (Yield m g)))"
      using ys(2) by (cases "format_model m") (auto simp: map_filter_simps intro: list_emb_Cons)
    with ys same show ?thesis by auto
  next
    assume "\<exists>d. format_model m = Some d \<and> py_ge (downloads d) md = Inr True \<and>
                loop_body q md m acc = acc @ [d]"
    then obtain d where d: "format_model m = Some d" "py_ge (downloads d) md = Inr True"
      "loop_body q md m acc = acc @ [d]" by blast
    have "subseq (d # ys) (List.map_filter format_model (gen_items (Yield m g)))"
      using ys(2) d(1) by (simp add: map_filter_simps)
    moreover have "rs = acc @ (d # ys)" using ys(1) d(3) by simp
    moreover have "\<forall>r\<in>set (d # ys). py_ge (downloads r) md = Inr True"
      using ys(3) d(2) by simp
    ultimately show ?thesis by blast
  qed
qed


lemma search_loop_returns:
  "\<not> gen_raises g \<Longrightarrow> \<exists>rs. search_loop q md g acc = Inr rs"
  by (induction g arbitrary: acc) simp_all

lemma length_map_filter_le: "length (List.map_filter f xs) \<le> length xs"
  by (induction xs) (simp_all add: map_filter_simps split: option.splits)

lemma loop_body_ignores_query:
  "loop_body query min_downloads model results = loop_body None min_downloads model results"
  by (simp add: loop_body_def Let_def split: option.splits sum.splits)

text \<open>
  C1 does not hold of the code. The query test of the loop comes after the record has
  been appended, so it drops nothing: with the query \<^verbatim>\<open>"gpt"\<close> and an upstream listing
  that yields the record \<^verbatim>\<open>"bert-base"\<close>, the search returns that record, although
  \<^verbatim>\<open>"gpt"\<close> occurs neither in its model name nor in its full identifier.
\<close>

theorem search_keeps_unmatched_record:
  "(case search (\<lambda>p. Inr (Yield sample_bert Done)) (default_args\<lparr>arg_query := Some ''gpt''\<rparr>) of
      [r] \<Rightarrow> model_name r = ''bert-base'' \<and> full_model_id r = ''bert-base'' \<and>
             \<not> py_in (lower ''gpt'') (lower (model_name r)) \<and>
             \<not> py_in (lower ''gpt'') (lower (full_model_id r))
    | _ \<Rightarrow> False)"
  by (simp add: search_def search_try_def loop_body_def format_sample_bert default_args_def
                py_in_def lower_def lower_char_def sublist_Cons_right)

text \<open>
  C2. Every record returned by \<^verbatim>\<open>search\<close> has a download count that compares
  \<^verbatim>\<open>>= min_downloads\<close>, for every value of \<^verbatim>\<open>min_downloads\<close>.
\<close>

theorem search_min_downloads:
  "r \<in> set (search list_models a) \<Longrightarrow>
   py_ge (downloads r) (arg_min_downloads a) = Inr True"
proof (cases "search_try list_models a")
  case (Inl e)
  assume "r \<in> set (search list_models a)"
  with Inl show ?thesis by (simp add: search_def)
next
  case (Inr rs)
  assume "r \<in> set (search list_models a)"
  with Inr have r: "r \<in> set rs" by (simp add: search_def)
  from Inr obtain g where
    "search_loop (arg_query a) (arg_min_downloads a) g [] = Inr rs"
    by (auto simp: search_try_def split: sum.splits)
  from search_loop_extends [OF this] r show ?thesis by auto
qed

theorem search_min_downloads_witness:
  "\<lparr> model_name = ''gpt-2'', task = PStr ''text-generation'',
     organization_url = ''huggingface.co/openai'', full_model_id = ''openai/gpt-2'',
     organization = ''openai'', downloads = PInt 5000, likes = PInt 12 \<rparr>
     \<in> set (search (\<lambda>p. Inr (Yield sample_bert (Yield sample_gpt2 Done)))
              (default_args\<lparr>arg_min_downloads := 1000\<rparr>)) \<and>
   py_ge (PInt 5000) 1000 = Inr True"
proof -
  let ?r = "\<lparr> model_name = ''gpt-2'', task = PStr ''text-generation'',
     organization_url = ''huggingface.co/openai'', full_model_id = ''openai/gpt-2'',
     organization = ''openai'', downloads = PInt 5000, likes = PInt 12 \<rparr>"
  let ?a = "default_args\<lparr>arg_min_downloads := 1000\<rparr>"
  have h: "?r \<in> set (search (\<lambda>p. Inr (Yield sample_bert (Yield sample_gpt2 Done))) ?a)"
    by (simp add: search_def search_try_def loop_body_def format_sample_bert
                  format_sample_gpt2 default_args_def)
  from search_min_downloads [OF h] h show ?thesis
    by (simp add: default_args_def)
qed



text \<open>
  C10. The list returned by \<^verbatim>\<open>search\<close> is an order-preserving subsequence of the
  formatted upstream records (those the formatting does not drop), so it is no longer
  than the upstream listing.
\<close>

theorem search_subseq:
  "subseq (search list_models a)
     (List.map_filter format_model (upstream_items (list_models (build_params a)))) \<and>
   length (search list_models a) \<le> length (upstream_items (list_models (build_params a)))"
proof -
  let ?up = "upstream_items (list_models (build_params a))"
  have sub: "subseq (search list_models a) (List.map_filter format_model ?up)"
  proof (cases "search_try list_models a")
    case (Inl e)
    then show ?thesis by (simp add: search_def)
  next
    case (Inr rs)
    then obtain g where g: "list_models (build_params a) = Inr g"
      and rs: "search_loop (arg_query a) (arg_min_downloads a) g [] = Inr rs"
      by (auto simp: search_try_def split: sum.splits)
    from search_loop_extends [OF rs] g Inr show ?thesis
      by (auto simp: search_def)
  qed
  then have "length (search list_models a) \<le> length (List.map_filter format_model ?up)"
    by (rule list_emb_length)
  also have "\<dots> \<le> length ?up" by (rule length_map_filter_le)
  finally show ?thesis using sub by simp
qed

section \<open>Properties of the wrappers\<close>

text \<open>
  C5. Each convenience wrapper returns what \<^verbatim>\<open>search\<close> returns on its preset arguments:
  \<^verbatim>\<open>search_by_task\<close> passes the task, the limit and a download floor of 1000 when
  \<^verbatim>\<open>popular_only\<close> is true and 0 otherwise; \<^verbatim>\<open>get_popular\<close> passes a download floor
  of 10000 and the sort key \<^verbatim>\<open>"downloads"\<close>; \<^verbatim>\<open>get_recent\<close> passes the sort key
  \<^verbatim>\<open>"created"\<close> and the cutoff \<^verbatim>\<open>"2024-01-01"\<close>; every other argument of \<^verbatim>\<open>search\<close>
  has its default.
\<close>

theorem wrappers_presets:
  "search_by_task list_models t limit popular_only =
     search list_models
       \<lparr> arg_query = None, arg_task = Some t, arg_organization = None, arg_library = None,
         arg_sort = ''downloads'', arg_direction = - 1, arg_limit = limit,
         arg_min_downloads = (if popular_only then 1000 else 0), arg_created_after = None \<rparr> \<and>
   get_popular list_models topt limit =
     search list_models
       \<lparr> arg_query = None, arg_task = topt, arg_organization = None, arg_library = None,
         arg_sort = ''downloads'', arg_direction = - 1, arg_limit = limit,
         arg_min_downloads = 10000, arg_created_after = None \<rparr> \<and>
   get_recent list_models topt limit =
     search list_models
       \<lparr> arg_query = None, arg_task = topt, arg_organization = None, arg_library = None,
         arg_sort = ''created'', arg_direction = - 1, arg_limit = limit,
         arg_min_downloads = 0, arg_created_after = Some ''2024-01-01'' \<rparr>"
  by (simp add: search_by_task_def get_popular_def get_recent_def default_args_def)

section \<open>Properties of the CSV export\<close>

text \<open>
  C7. For every file name, exporting the empty result list prints the no-results
  message and changes nothing else: no file is written and no directory is made.
\<close>

theorem export_csv_empty:
  "export_csv [] filename w = w\<lparr>stdout := stdout w @ [no_results_message]\<rparr> \<and>
   files (export_csv [] filename w) = files w \<and>
   dirs (export_csv [] filename w) = dirs w"
  by (simp add: export_csv_def print_def)

lemma write_models_append:
  "write_models rs f =
     f @ concat (map (\<lambda>r. join_comma [csv_field (PStr (model_name r)), csv_field (task r),
                                        csv_field (PStr (organization_url r))]
                            @ [CHR 0x0D, CHR 0x0A]) rs)"
  by (induction rs arbitrary: f) (simp_all add: writerow_def)

text \<open>
  C8. For every result list that is not empty, the file written by \<^verbatim>\<open>export_csv\<close>
  holds the header row \<^verbatim>\<open>model_name,task,organization_url\<close> followed by one row per
  record, in the order of the list, made of the record's model name, task and
  organization URL.
\<close>

theorem export_csv_contents:
  assumes "results \<noteq> []"
  shows "files (export_csv results filename w) filename =
           Some (''model_name,task,organization_url'' @ [CHR 0x0D, CHR 0x0A] @
                 concat (map (\<lambda>r. join_comma [csv_field (PStr (model_name r)),
                                               csv_field (task r),
                                               csv_field (PStr (organization_url r))]
                                   @ [CHR 0x0D, CHR 0x0A]) results))"
  using assms
  by (simp add: export_csv_def print_def Let_def write_models_append writerow_def
                csv_field_def csv_special_def)

theorem export_csv_contents_witness:
  "[\<lparr> model_name = ''gpt-2'', task = PStr ''text-generation'',
      organization_url = ''huggingface.co/openai'', full_model_id = ''openai/gpt-2'',
      organization = ''openai'', downloads = PInt 5000, likes = PInt 12 \<rparr>] \<noteq> [] \<and>
   files (export_csv
            [\<lparr> model_name = ''gpt-2'', task = PStr ''text-generation'',
               organization_url = ''huggingface.co/openai'', full_model_id = ''openai/gpt-2'',
               organization = ''openai'', downloads = PInt 5000, likes = PInt 12 \<rparr>]
            ''out/models.csv'' \<lparr> files = Map.empty, dirs = {}, stdout = [] \<rparr>)
     ''out/models.csv'' =
     Some (''model_name,task,organization_url'' @ [CHR 0x0D, CHR 0x0A] @
           ''gpt-2,text-generation,huggingface.co/openai'' @ [CHR 0x0D, CHR 0x0A])"
  using export_csv_contents
    [of "[\<lparr> model_name = ''gpt-2'', task = PStr ''text-generation'',
            organization_url = ''huggingface.co/openai'', full_model_id = ''openai/gpt-2'',
            organization = ''openai'', downloads = PInt 5000, likes = PInt 12 \<rparr>]"
        "''out/models.csv''" "\<lparr> files = Map.empty, dirs = {}, stdout = [] \<rparr>"]
  by (simp add: csv_field_def csv_special_def)

end
